theory Spec2Isabelle
  imports Main "HOL-Library.Word"
begin

unbundle bit_operations_syntax

section \<open>Data model\<close>

text \<open>
  Handles are pointer-sized values; \<open>nullptr\<close> is the word \<open>0\<close>, so the source's
  \<open>!h\<close> is \<open>h = 0\<close>. \<open>LONG\<close> and \<open>DWORD\<close> are 32 bits wide; arithmetic on them
  wraps around and the signed comparisons of the source read them in two's complement.
\<close>

type_synonym HWND = "64 word"
type_synonym HMONITOR = "64 word"
type_synonym HANDLE = "64 word"
type_synonym LONG = "32 word"
type_synonym DWORD = "32 word"

record POINT =
  pt_x :: LONG
  pt_y :: LONG

record RECT =
  rc_left :: LONG
  rc_top :: LONG
  rc_right :: LONG
  rc_bottom :: LONG

record MONITORINFO =
  rcMonitor :: RECT
  rcWork :: RECT
  dwFlags :: DWORD

definition MONITORINFOF_PRIMARY :: DWORD where
  "MONITORINFOF_PRIMARY = 1"

definition MONITOR_DEFAULTTOPRIMARY :: DWORD where
  "MONITOR_DEFAULTTOPRIMARY = 1"

definition MONITOR_DEFAULTTONEAREST :: DWORD where
  "MONITOR_DEFAULTTONEAREST = 2"

definition GWL_STYLE :: int where
  "GWL_STYLE = - 16"

definition WS_VISIBLE :: LONG where
  "WS_VISIBLE = 0x10000000"

text \<open>
  The anonymous struct \<open>g_settings\<close>. Its numbers are C \<open>int\<close>s; the one
  computation on them is \<open>secondaryMonitor - 1\<close>, compared with a count of displays
  that starts at 0, so they are read as integers.
\<close>

record settings =
  secondaryMonitor :: int
  pollInterval :: int
  enableLogging :: bool

text \<open>
  The operating system and the host as the mod sees them at one moment: every query the
  source makes is a field, a failing query returns \<open>None\<close> (or the null handle).
  \<open>EnumDisplayMonitors\<close> is the order in which the callback is invoked.
\<close>

record os =
  FindWindow_Shell_TrayWnd :: HWND
  GetWindowThreadProcessId :: "HWND \<Rightarrow> DWORD \<times> DWORD"
  GetCurrentProcessId :: DWORD
  EnumDisplayMonitors :: "HMONITOR list"
  GetMonitorInfo :: "HMONITOR \<Rightarrow> MONITORINFO option"
  MonitorFromPoint_Original :: "POINT \<Rightarrow> DWORD \<Rightarrow> HMONITOR"
  IsWindowVisible :: "HWND \<Rightarrow> bool"
  GetDesktopWindow :: HWND
  GetShellWindow :: HWND
  GetWindowLong :: "HWND \<Rightarrow> int \<Rightarrow> LONG"
  GetWindowRect :: "HWND \<Rightarrow> RECT option"
  GetForegroundWindow :: HWND
  IsWindow :: "HWND \<Rightarrow> bool"
  Wh_GetIntSetting :: "string \<Rightarrow> int"
  LoadLibrary_taskbar_dll :: HANDLE
  HookSymbols :: bool
  CreateThread :: HANDLE
  WaitForSingleObject :: "HANDLE \<Rightarrow> DWORD \<Rightarrow> DWORD"

text \<open>
  What the mod does to the outside: \<open>ApplyTaskbarSettings_called\<close> marks one request for
  a shell redisplay, \<open>SendMessage h m\<close> the message \<open>m\<close> really sent to window \<open>h\<close>.
\<close>

datatype event =
  ApplyTaskbarSettings_called
| SendMessage HWND DWORD

text \<open>
  The globals of the mod. \<open>MonitorFromPoint_hooked\<close> tells whether calls of
  \<open>MonitorFromPoint\<close> reach \<open>MonitorFromPoint_Hook\<close>; \<open>trace\<close> is the list of
  events so far.
\<close>

record globals =
  g_settings :: settings
  g_initialized :: bool
  g_unloading :: bool
  g_forceSecondary :: bool
  g_primaryMonitor :: HMONITOR
  g_secondaryMonitor :: HMONITOR
  g_taskbarHwnd :: HWND
  g_monitorThread :: HANDLE
  g_running :: bool
  g_fullscreenApp :: HWND
  MonitorFromPoint_hooked :: bool
  trace :: "event list"

section \<open>Monitor registry\<close>

definition GetTaskbarWnd :: "os \<Rightarrow> HWND" where
  "GetTaskbarWnd os =
     (let hTaskbarWnd = FindWindow_Shell_TrayWnd os;
          (threadId, processId) = GetWindowThreadProcessId os hTaskbarWnd
      in if hTaskbarWnd = 0 \<or> threadId = 0 \<or> processId \<noteq> GetCurrentProcessId os
         then 0 else hTaskbarWnd)"

text \<open>
  The callback \<open>monitorEnumProc\<close> run over the displays still to be enumerated, with the
  captured \<open>currentIndex\<close>; returning \<open>FALSE\<close> stops the enumeration. The result is
  \<open>monitorResult\<close>.
\<close>

fun monitorEnumProc :: "os \<Rightarrow> int \<Rightarrow> HMONITOR list \<Rightarrow> int \<Rightarrow> HMONITOR" where
  "monitorEnumProc os index [] currentIndex = 0"
| "monitorEnumProc os index (hMonitor # rest) currentIndex =
     (case GetMonitorInfo os hMonitor of
        None \<Rightarrow> monitorEnumProc os index rest currentIndex
      | Some mi \<Rightarrow>
          if (dwFlags mi AND MONITORINFOF_PRIMARY) \<noteq> 0
          then monitorEnumProc os index rest currentIndex
          else if currentIndex = index then hMonitor
          else monitorEnumProc os index rest (currentIndex + 1))"

definition GetMonitorByIndex :: "os \<Rightarrow> int \<Rightarrow> HMONITOR" where
  "GetMonitorByIndex os index = monitorEnumProc os index (EnumDisplayMonitors os) 0"

section \<open>Interception layer\<close>

definition MonitorFromPoint_Hook :: "os \<Rightarrow> globals \<Rightarrow> POINT \<Rightarrow> DWORD \<Rightarrow> HMONITOR" where
  "MonitorFromPoint_Hook os g pt flags =
     (if pt_x pt = 0 \<and> pt_y pt = 0 \<and> g_forceSecondary g \<and> g_secondaryMonitor g \<noteq> 0
      then g_secondaryMonitor g
      else MonitorFromPoint_Original os pt flags)"

text \<open>A call of \<open>MonitorFromPoint\<close> from the mod's own code.\<close>

definition MonitorFromPoint :: "os \<Rightarrow> globals \<Rightarrow> POINT \<Rightarrow> DWORD \<Rightarrow> HMONITOR" where
  "MonitorFromPoint os g pt flags =
     (if MonitorFromPoint_hooked g then MonitorFromPoint_Hook os g pt flags
      else MonitorFromPoint_Original os pt flags)"

definition LoadSettings :: "os \<Rightarrow> globals \<Rightarrow> globals" where
  "LoadSettings os g =
     g\<lparr>g_settings :=
         \<lparr>secondaryMonitor = Wh_GetIntSetting os ''secondaryMonitor'',
          pollInterval = Wh_GetIntSetting os ''pollInterval'',
          enableLogging = (Wh_GetIntSetting os ''enableLogging'' \<noteq> 0)\<rparr>\<rparr>"

definition RefreshMonitors :: "os \<Rightarrow> globals \<Rightarrow> globals" where
  "RefreshMonitors os g =
     g\<lparr>g_primaryMonitor :=
         MonitorFromPoint os g \<lparr>pt_x = 0, pt_y = 0\<rparr> MONITOR_DEFAULTTOPRIMARY,
       g_secondaryMonitor :=
         GetMonitorByIndex os (secondaryMonitor (g_settings g) - 1)\<rparr>"

text \<open>
  \<open>TrayUI__SetStuckMonitor_Hook\<close>: both returns of the source hand \<open>pThis\<close> and a
  display to \<open>TrayUI__SetStuckMonitor_Original\<close>, here the parameter \<open>Original\<close>.
\<close>

definition TrayUI__SetStuckMonitor_Hook ::
    "os \<Rightarrow> globals \<Rightarrow> ('p \<Rightarrow> HMONITOR \<Rightarrow> 'r) \<Rightarrow> 'p \<Rightarrow> HMONITOR \<Rightarrow> 'r" where
  "TrayUI__SetStuckMonitor_Hook os g Original pThis monitor =
     (if \<not> g_forceSecondary g \<and> g_unloading g then Original pThis monitor
      else
        let monitor1 =
              (if \<not> g_unloading g \<and> g_forceSecondary g \<and> g_secondaryMonitor g \<noteq> 0
               then g_secondaryMonitor g
               else if \<not> g_forceSecondary g \<and> g_primaryMonitor g \<noteq> 0
               then g_primaryMonitor g
               else monitor);
            monitor2 =
              (if monitor1 = 0
               then MonitorFromPoint_Original os \<lparr>pt_x = 0, pt_y = 0\<rparr> MONITOR_DEFAULTTONEAREST
               else monitor1)
        in Original pThis monitor2)"

section \<open>Fullscreen classifier\<close>

definition IsWindowFullscreen :: "os \<Rightarrow> globals \<Rightarrow> HWND \<Rightarrow> bool" where
  "IsWindowFullscreen os g hWnd =
     (if hWnd = 0 \<or> \<not> IsWindowVisible os hWnd then False
      else if hWnd = GetDesktopWindow os \<or> hWnd = GetShellWindow os \<or> hWnd = g_taskbarHwnd g
      then False
      else if (GetWindowLong os hWnd GWL_STYLE AND WS_VISIBLE) = 0 then False
      else
        case GetWindowRect os hWnd of
          None \<Rightarrow> False
        | Some windowRect \<Rightarrow>
            let hMonitor =
                  MonitorFromPoint_Original os
                    \<lparr>pt_x = rc_left windowRect, pt_y = rc_top windowRect\<rparr>
                    MONITOR_DEFAULTTONEAREST
            in if hMonitor \<noteq> g_primaryMonitor g then False
               else
                 (case GetMonitorInfo os hMonitor of
                    None \<Rightarrow> False
                  | Some mi \<Rightarrow>
                      let monitorWidth = rc_right (rcMonitor mi) - rc_left (rcMonitor mi);
                          monitorHeight = rc_bottom (rcMonitor mi) - rc_top (rcMonitor mi);
                          windowWidth = rc_right windowRect - rc_left windowRect;
                          windowHeight = rc_bottom windowRect - rc_top windowRect
                      in sint (monitorWidth - 10) \<le> sint windowWidth \<and>
                         sint (monitorHeight - 10) \<le> sint windowHeight))"

section \<open>Redirection state and poll loop\<close>

definition ApplyTaskbarSettings :: "os \<Rightarrow> globals \<Rightarrow> globals" where
  "ApplyTaskbarSettings os g =
     (let g0 = g\<lparr>trace := trace g @ [ApplyTaskbarSettings_called]\<rparr>;
          g1 = (if g_taskbarHwnd g0 = 0 then g0\<lparr>g_taskbarHwnd := GetTaskbarWnd os\<rparr> else g0)
      in if g_taskbarHwnd g1 \<noteq> 0
         then g1\<lparr>trace := trace g1 @ [SendMessage (g_taskbarHwnd g1) 0x5B8]\<rparr>
         else g1)"

text \<open>
  One pass through the body of the \<open>while (g_running)\<close> loop of \<open>MonitorThreadFunc\<close>,
  on the local \<open>lastCheckedWindow\<close> and the globals; the log lines and the sleep leave
  both alone.
\<close>

definition MonitorThread_iteration :: "os \<Rightarrow> HWND \<Rightarrow> globals \<Rightarrow> HWND \<times> globals" where
  "MonitorThread_iteration os lastCheckedWindow g =
     (let hWnd = GetForegroundWindow os;
          g1 = (if g_fullscreenApp g \<noteq> 0 \<and> \<not> IsWindow os (g_fullscreenApp g)
                then ApplyTaskbarSettings os (g\<lparr>g_fullscreenApp := 0, g_forceSecondary := False\<rparr>)
                else g);
          needsCheck = (hWnd \<noteq> lastCheckedWindow);
          g2 = (if needsCheck
                then (if IsWindowFullscreen os g1 hWnd \<and> g_fullscreenApp g1 = 0
                      then ApplyTaskbarSettings os
                             (g1\<lparr>g_fullscreenApp := hWnd, g_forceSecondary := True\<rparr>)
                      else g1)
                else g1)
      in (hWnd, g2))"

text \<open>
  The loop, one element of the list for what the system answers during each pass; it
  stops when \<open>g_running\<close> is off or the list is used up.
\<close>

fun MonitorThread_loop :: "os list \<Rightarrow> HWND \<Rightarrow> globals \<Rightarrow> HWND \<times> globals" where
  "MonitorThread_loop [] lastCheckedWindow g = (lastCheckedWindow, g)"
| "MonitorThread_loop (os # rest) lastCheckedWindow g =
     (if g_running g
      then (case MonitorThread_iteration os lastCheckedWindow g of
              (lastCheckedWindow1, g1) \<Rightarrow> MonitorThread_loop rest lastCheckedWindow1 g1)
      else (lastCheckedWindow, g))"

definition MonitorThreadFunc :: "os list \<Rightarrow> globals \<Rightarrow> DWORD \<times> globals" where
  "MonitorThreadFunc ticks g =
     (if g_secondaryMonitor g = 0 then (1, g)
      else (0, snd (MonitorThread_loop ticks 0 g)))"

section \<open>Lifecycle\<close>

definition HookTaskbarSymbols :: "os \<Rightarrow> bool" where
  "HookTaskbarSymbols os = (if LoadLibrary_taskbar_dll os = 0 then False else HookSymbols os)"

text \<open>
  \<open>Wh_ModInit\<close> returns \<open>FALSE\<close> or \<open>TRUE\<close> and the globals it leaves. The thread it
  creates is \<open>g_monitorThread\<close>, with \<open>g_running\<close> switched on before.
\<close>

definition Wh_ModInit :: "os \<Rightarrow> globals \<Rightarrow> bool \<times> globals" where
  "Wh_ModInit os g =
     (let g1 = LoadSettings os g;
          g2 = g1\<lparr>g_taskbarHwnd := GetTaskbarWnd os\<rparr>;
          g3 = RefreshMonitors os g2
      in if g_primaryMonitor g3 = 0 \<or> g_secondaryMonitor g3 = 0 then (False, g3)
         else if \<not> HookTaskbarSymbols os then (False, g3)
         else
           let g4 = g3\<lparr>MonitorFromPoint_hooked := True, g_initialized := True,
                       g_running := True\<rparr>;
               g5 = g4\<lparr>g_monitorThread := CreateThread os\<rparr>
           in if g_monitorThread g5 = 0 then (False, g5) else (True, g5))"

text \<open>
  \<open>Wh_ModUninit\<close>. The wait for the monitor thread is bounded at 5000 ms; what it
  returns (the thread has ended, or the time is up) is not used, and neither the wait
  nor the closing of the handle changes a global.
\<close>

definition Wh_ModUninit :: "os \<Rightarrow> globals \<Rightarrow> globals" where
  "Wh_ModUninit os g =
     (let g1 = g\<lparr>g_unloading := True, g_running := False\<rparr>;
          waited = (if g_monitorThread g1 \<noteq> 0
                    then Some (WaitForSingleObject os (g_monitorThread g1) 5000)
                    else None);
          g2 = g1\<lparr>g_fullscreenApp := 0, g_forceSecondary := False\<rparr>
      in ApplyTaskbarSettings os g2)"

definition Wh_ModSettingsChanged :: "os \<Rightarrow> globals \<Rightarrow> globals" where
  "Wh_ModSettingsChanged os g = RefreshMonitors os (LoadSettings os g)"

section \<open>Notions used in the statements\<close>

definition rect_width :: "RECT \<Rightarrow> LONG" where
  "rect_width r = rc_right r - rc_left r"

definition rect_height :: "RECT \<Rightarrow> LONG" where
  "rect_height r = rc_bottom r - rc_top r"

text \<open>All four coordinates are far from the ends of the 32-bit range.\<close>

definition rect_in_range :: "RECT \<Rightarrow> bool" where
  "rect_in_range r =
     (- (2 ^ 29) \<le> sint (rc_left r) \<and> sint (rc_left r) < 2 ^ 29 \<and>
      - (2 ^ 29) \<le> sint (rc_top r) \<and> sint (rc_top r) < 2 ^ 29 \<and>
      - (2 ^ 29) \<le> sint (rc_right r) \<and> sint (rc_right r) < 2 ^ 29 \<and>
      - (2 ^ 29) \<le> sint (rc_bottom r) \<and> sint (rc_bottom r) < 2 ^ 29)"

text \<open>
  The display after the substitution of \<open>TrayUI__SetStuckMonitor_Hook\<close>, before its
  null check: the \<open>if\<close> and \<open>else if\<close> of the source on the supplied display.
\<close>

definition substituted_monitor :: "globals \<Rightarrow> HMONITOR \<Rightarrow> HMONITOR" where
  "substituted_monitor g monitor =
     (if \<not> g_unloading g \<and> g_forceSecondary g \<and> g_secondaryMonitor g \<noteq> 0
      then g_secondaryMonitor g
      else if \<not> g_forceSecondary g \<and> g_primaryMonitor g \<noteq> 0
      then g_primaryMonitor g
      else monitor)"

text \<open>The number of shell redisplays requested so far.\<close>

definition redisplays :: "globals \<Rightarrow> nat" where
  "redisplays g = count_list (trace g) ApplyTaskbarSettings_called"

text \<open>
  The displays that \<open>GetMonitorByIndex\<close> counts: those for which \<open>GetMonitorInfo\<close>
  answers, without the primary flag. A display whose query fails is passed over like the
  primary one.
\<close>

definition reported_nonprimary :: "os \<Rightarrow> HMONITOR \<Rightarrow> bool" where
  "reported_nonprimary os hMonitor =
     (case GetMonitorInfo os hMonitor of
        None \<Rightarrow> False
      | Some mi \<Rightarrow> (dwFlags mi AND MONITORINFOF_PRIMARY) = 0)"

definition nonprimary_displays :: "os \<Rightarrow> HMONITOR list" where
  "nonprimary_displays os = filter (reported_nonprimary os) (EnumDisplayMonitors os)"

section \<open>The variants the specification compares the code with\<close>

text \<open>
  The classifier in the specification's words: as \<open>IsWindowFullscreen\<close>, but measured
  against the work area of the primary display.
\<close>

definition isFullscreen_spec :: "os \<Rightarrow> globals \<Rightarrow> HWND \<Rightarrow> bool" where
  "isFullscreen_spec os g w =
     (w \<noteq> 0 \<and> IsWindowVisible os w \<and> (GetWindowLong os w GWL_STYLE AND WS_VISIBLE) \<noteq> 0 \<and>
      w \<noteq> GetDesktopWindow os \<and> w \<noteq> GetShellWindow os \<and> w \<noteq> g_taskbarHwnd g \<and>
      (case GetWindowRect os w of
         None \<Rightarrow> False
       | Some W \<Rightarrow>
           MonitorFromPoint_Original os \<lparr>pt_x = rc_left W, pt_y = rc_top W\<rparr>
             MONITOR_DEFAULTTONEAREST = g_primaryMonitor g \<and>
           (case GetMonitorInfo os (g_primaryMonitor g) of
              None \<Rightarrow> False
            | Some mi \<Rightarrow>
                sint (rect_width (rcWork mi) - 10) \<le> sint (rect_width W) \<and>
                sint (rect_height (rcWork mi) - 10) \<le> sint (rect_height W))))"

text \<open>
  The shell-decision hook without its fast path: the decision table of
  \<open>TrayUI__SetStuckMonitor_Hook\<close> evaluated on every call.
\<close>

definition TrayUI__SetStuckMonitor_full_table ::
    "os \<Rightarrow> globals \<Rightarrow> ('p \<Rightarrow> HMONITOR \<Rightarrow> 'r) \<Rightarrow> 'p \<Rightarrow> HMONITOR \<Rightarrow> 'r" where
  "TrayUI__SetStuckMonitor_full_table os g Original pThis monitor =
     (let monitor1 =
            (if \<not> g_unloading g \<and> g_forceSecondary g \<and> g_secondaryMonitor g \<noteq> 0
             then g_secondaryMonitor g
             else if \<not> g_forceSecondary g \<and> g_primaryMonitor g \<noteq> 0
             then g_primaryMonitor g
             else monitor);
          monitor2 =
            (if monitor1 = 0
             then MonitorFromPoint_Original os \<lparr>pt_x = 0, pt_y = 0\<rparr> MONITOR_DEFAULTTONEAREST
             else monitor1)
      in Original pThis monitor2)"

text \<open>
  The hook called while the monitor thread writes the globals: the source tests the
  flags in three places, each test loading them anew, so the globals are given as they
  are at the test of the fast path (\<open>g_fast\<close>), at the test for the secondary display
  (\<open>g_sec\<close>) and at the test for the primary display (\<open>g_prim\<close>). Every single load
  is taken as atomic.
\<close>

definition TrayUI__SetStuckMonitor_Hook_loads ::
    "os \<Rightarrow> globals \<Rightarrow> globals \<Rightarrow> globals \<Rightarrow> ('p \<Rightarrow> HMONITOR \<Rightarrow> 'r) \<Rightarrow> 'p \<Rightarrow> HMONITOR \<Rightarrow> 'r"
  where
  "TrayUI__SetStuckMonitor_Hook_loads os g_fast g_sec g_prim Original pThis monitor =
     (if \<not> g_forceSecondary g_fast \<and> g_unloading g_fast then Original pThis monitor
      else
        let monitor1 =
              (if \<not> g_unloading g_sec \<and> g_forceSecondary g_sec \<and> g_secondaryMonitor g_sec \<noteq> 0
               then g_secondaryMonitor g_sec
               else if \<not> g_forceSecondary g_prim \<and> g_primaryMonitor g_prim \<noteq> 0
               then g_primaryMonitor g_prim
               else monitor);
            monitor2 =
              (if monitor1 = 0
               then MonitorFromPoint_Original os \<lparr>pt_x = 0, pt_y = 0\<rparr> MONITOR_DEFAULTTONEAREST
               else monitor1)
        in Original pThis monitor2)"

text \<open>
  The poll loop without the change-detection gate: the foreground window is classified
  on every pass, so \<open>lastCheckedWindow\<close> is not needed.
\<close>

definition MonitorThread_iteration_ungated :: "os \<Rightarrow> globals \<Rightarrow> globals" where
  "MonitorThread_iteration_ungated os g =
     (let hWnd = GetForegroundWindow os;
          g1 = (if g_fullscreenApp g \<noteq> 0 \<and> \<not> IsWindow os (g_fullscreenApp g)
                then ApplyTaskbarSettings os (g\<lparr>g_fullscreenApp := 0, g_forceSecondary := False\<rparr>)
                else g)
      in if IsWindowFullscreen os g1 hWnd \<and> g_fullscreenApp g1 = 0
         then ApplyTaskbarSettings os (g1\<lparr>g_fullscreenApp := hWnd, g_forceSecondary := True\<rparr>)
         else g1)"

fun MonitorThread_loop_ungated :: "os list \<Rightarrow> globals \<Rightarrow> globals" where
  "MonitorThread_loop_ungated [] g = g"
| "MonitorThread_loop_ungated (os # rest) g =
     (if g_running g then MonitorThread_loop_ungated rest (MonitorThread_iteration_ungated os g)
      else g)"

text \<open>
  The one situation in which the gate matters: the foreground window is the one examined
  on the pass before, it is classified fullscreen now, and after the liveness check no
  application is tracked.
\<close>

definition gate_suppresses_entry :: "os \<Rightarrow> HWND \<Rightarrow> globals \<Rightarrow> bool" where
  "gate_suppresses_entry os lastCheckedWindow g =
     (let g1 = (if g_fullscreenApp g \<noteq> 0 \<and> \<not> IsWindow os (g_fullscreenApp g)
                then ApplyTaskbarSettings os (g\<lparr>g_fullscreenApp := 0, g_forceSecondary := False\<rparr>)
                else g)
      in GetForegroundWindow os = lastCheckedWindow \<and>
         IsWindowFullscreen os g1 (GetForegroundWindow os) \<and> g_fullscreenApp g1 = 0)"

text \<open>No pass of the gated loop over the given inputs is in that situation.\<close>

fun gate_never_suppresses :: "os list \<Rightarrow> HWND \<Rightarrow> globals \<Rightarrow> bool" where
  "gate_never_suppresses [] lastCheckedWindow g = True"
| "gate_never_suppresses (os # rest) lastCheckedWindow g =
     (if g_running g
      then \<not> gate_suppresses_entry os lastCheckedWindow g \<and>
           gate_never_suppresses rest (fst (MonitorThread_iteration os lastCheckedWindow g))
             (snd (MonitorThread_iteration os lastCheckedWindow g))
      else True)"

section \<open>A concrete desktop\<close>

text \<open>
  Three displays side by side, each 1920 by 1080: display 1 is the primary one, with a
  taskbar 40 pixels high taken out of its work area; displays 2 and 4 follow in the
  enumeration. The taskbar window is 3, the desktop window 8, the shell window 9.
\<close>

definition display_primary :: MONITORINFO where
  "display_primary =
     \<lparr>rcMonitor = \<lparr>rc_left = 0, rc_top = 0, rc_right = 1920, rc_bottom = 1080\<rparr>,
      rcWork = \<lparr>rc_left = 0, rc_top = 0, rc_right = 1920, rc_bottom = 1040\<rparr>,
      dwFlags = 1\<rparr>"

definition display_second :: MONITORINFO where
  "display_second =
     \<lparr>rcMonitor = \<lparr>rc_left = 1920, rc_top = 0, rc_right = 3840, rc_bottom = 1080\<rparr>,
      rcWork = \<lparr>rc_left = 1920, rc_top = 0, rc_right = 3840, rc_bottom = 1080\<rparr>,
      dwFlags = 0\<rparr>"

definition display_third :: MONITORINFO where
  "display_third =
     \<lparr>rcMonitor = \<lparr>rc_left = 3840, rc_top = 0, rc_right = 5760, rc_bottom = 1080\<rparr>,
      rcWork = \<lparr>rc_left = 3840, rc_top = 0, rc_right = 5760, rc_bottom = 1080\<rparr>,
      dwFlags = 0\<rparr>"

text \<open>
  The desktop with foreground window \<open>fg\<close>, the open windows and their rectangles
  \<open>windows\<close>, and the setting \<open>secondaryMonitor = n\<close>.
\<close>

definition desk :: "HWND \<Rightarrow> (HWND \<times> RECT) list \<Rightarrow> int \<Rightarrow> os" where
  "desk fg windows n =
     \<lparr>FindWindow_Shell_TrayWnd = 3,
      GetWindowThreadProcessId = (\<lambda>h. if h = 3 then (7, 42) else (0, 0)),
      GetCurrentProcessId = 42,
      EnumDisplayMonitors = [1, 2, 4],
      GetMonitorInfo = (\<lambda>m. if m = 1 then Some display_primary
                              else if m = 2 then Some display_second
                              else if m = 4 then Some display_third else None),
      MonitorFromPoint_Original =
        (\<lambda>pt flags. if sint (pt_x pt) < 1920 then 1 else if sint (pt_x pt) < 3840 then 2 else 4),
      IsWindowVisible = (\<lambda>h. map_of windows h \<noteq> None),
      GetDesktopWindow = 8,
      GetShellWindow = 9,
      GetWindowLong = (\<lambda>h i. 0x10000000),
      GetWindowRect = map_of windows,
      GetForegroundWindow = fg,
      IsWindow = (\<lambda>h. map_of windows h \<noteq> None),
      Wh_GetIntSetting = (\<lambda>name. if name = ''secondaryMonitor'' then n
                                  else if name = ''pollInterval'' then 2000 else 0),
      LoadLibrary_taskbar_dll = 11,
      HookSymbols = True,
      CreateThread = 12,
      WaitForSingleObject = (\<lambda>h ms. 0)\<rparr>"

definition rect_full :: RECT where
  "rect_full = \<lparr>rc_left = 0, rc_top = 0, rc_right = 1920, rc_bottom = 1080\<rparr>"

definition rect_borderless :: RECT where
  "rect_borderless = \<lparr>rc_left = 4, rc_top = 1, rc_right = 1916, rc_bottom = 1079\<rparr>"

definition rect_maximized :: RECT where
  "rect_maximized = \<lparr>rc_left = 0, rc_top = 0, rc_right = 1920, rc_bottom = 1040\<rparr>"

definition rect_small :: RECT where
  "rect_small = \<lparr>rc_left = 10, rc_top = 10, rc_right = 1910, rc_bottom = 1070\<rparr>"

text \<open>The globals when the mod is loaded, after a successful \<open>Wh_ModInit\<close>, and while
  window 6 is tracked.\<close>

definition g_start :: globals where
  "g_start =
     \<lparr>g_settings = \<lparr>secondaryMonitor = 0, pollInterval = 0, enableLogging = False\<rparr>,
      g_initialized = False, g_unloading = False, g_forceSecondary = False,
      g_primaryMonitor = 0, g_secondaryMonitor = 0, g_taskbarHwnd = 0, g_monitorThread = 0,
      g_running = False, g_fullscreenApp = 0, MonitorFromPoint_hooked = False, trace = []\<rparr>"

definition g_idle :: globals where
  "g_idle =
     \<lparr>g_settings = \<lparr>secondaryMonitor = 1, pollInterval = 2000, enableLogging = False\<rparr>,
      g_initialized = True, g_unloading = False, g_forceSecondary = False,
      g_primaryMonitor = 1, g_secondaryMonitor = 2, g_taskbarHwnd = 3, g_monitorThread = 12,
      g_running = True, g_fullscreenApp = 0, MonitorFromPoint_hooked = True, trace = []\<rparr>"

definition g_forcing6 :: globals where
  "g_forcing6 =
     g_idle\<lparr>g_fullscreenApp := 6, g_forceSecondary := True,
            trace := [ApplyTaskbarSettings_called, SendMessage 3 0x5B8]\<rparr>"

text \<open>
  The same desktop before the shell has created its taskbar window, and the globals
  after a successful \<open>Wh_ModInit\<close> there.
\<close>

definition desk_no_taskbar :: os where
  "desk_no_taskbar = (desk 0 [] 1)\<lparr>FindWindow_Shell_TrayWnd := 0\<rparr>"

definition g_idle_no_taskbar :: globals where
  "g_idle_no_taskbar = g_idle\<lparr>g_taskbarHwnd := 0\<rparr>"

text \<open>
  The globals after the setting \<open>secondaryMonitor\<close> has been changed to 5 while window 6
  is tracked: no secondary display is registered any more.
\<close>

definition g_forcing6_no_secondary :: globals where
  "g_forcing6_no_secondary =
     g_forcing6\<lparr>g_settings := \<lparr>secondaryMonitor = 5, pollInterval = 2000, enableLogging = False\<rparr>,
                 g_primaryMonitor := 2, g_secondaryMonitor := 0\<rparr>"

section \<open>Evaluation on the concrete desktop\<close>

lemmas fixture_defs = desk_def g_start_def g_idle_def g_forcing6_def
  desk_no_taskbar_def g_idle_no_taskbar_def g_forcing6_no_secondary_def
  display_primary_def display_second_def display_third_def
  rect_full_def rect_borderless_def rect_maximized_def rect_small_def
  GWL_STYLE_def WS_VISIBLE_def MONITOR_DEFAULTTONEAREST_def MONITOR_DEFAULTTOPRIMARY_def
  MONITORINFOF_PRIMARY_def

lemmas model_defs = IsWindowFullscreen_def Wh_ModInit_def Wh_ModUninit_def
  LoadSettings_def RefreshMonitors_def GetTaskbarWnd_def GetMonitorByIndex_def
  MonitorFromPoint_def MonitorFromPoint_Hook_def ApplyTaskbarSettings_def
  MonitorThread_iteration_def MonitorThreadFunc_def TrayUI__SetStuckMonitor_Hook_def
  HookTaskbarSymbols_def rect_width_def rect_height_def redisplays_def Let_def

text \<open>
  Initialisation on the desktop succeeds and leaves \<open>g_idle\<close>; one pass of the monitor
  thread with the fullscreen window 6 in the foreground then leaves \<open>g_forcing6\<close>. Both
  states used below are therefore states the mod reaches.
\<close>

lemma Wh_ModInit_desk: "Wh_ModInit (desk 0 [] 1) g_start = (True, g_idle)"
  by (simp add: fixture_defs model_defs)

lemma MonitorThreadFunc_enters_forcing:
  "MonitorThreadFunc [desk 6 [(6, rect_full)] 1] g_idle = (0, g_forcing6)"
  by (simp add: fixture_defs model_defs)

lemma Wh_ModInit_desk_no_taskbar: "Wh_ModInit desk_no_taskbar g_start = (True, g_idle_no_taskbar)"
  by (simp add: fixture_defs model_defs)

lemma Wh_ModSettingsChanged_while_forcing:
  "Wh_ModSettingsChanged (desk 6 [(6, rect_full)] 5) g_forcing6 = g_forcing6_no_secondary"
  by (simp add: fixture_defs model_defs Wh_ModSettingsChanged_def)

text \<open>
  The two borderless scenarios of the specification: 1912 by 1078 on the 1920 by 1080
  primary display is fullscreen, 1900 by 1060 is not.
\<close>

lemma IsWindowFullscreen_borderless:
  "IsWindowFullscreen (desk 5 [(5, rect_borderless)] 1) g_idle 5"
  by (simp add: fixture_defs model_defs)

lemma IsWindowFullscreen_outside_tolerance:
  "\<not> IsWindowFullscreen (desk 5 [(5, rect_small)] 1) g_idle 5"
  by (simp add: fixture_defs model_defs)

section \<open>Fullscreen classifier: results\<close>

text \<open>
  Where no subtraction overflows, the wrapped 32-bit differences are the differences of
  the coordinates, so the comparison of the classifier is the one on the integers.
\<close>

lemma sint_minus_no_overflow:
  fixes a b :: "32 word"
  assumes "- (2 ^ 31) \<le> sint a - sint b" and "sint a - sint b < 2 ^ 31"
  shows "sint (a - b) = sint a - sint b"
  using assms by (simp add: sint_word_ariths signed_take_bit_int_eq_self)

lemma sint_minus_10_no_overflow:
  fixes a b :: "32 word"
  assumes "- (2 ^ 29) \<le> sint a" "sint a < 2 ^ 29" "- (2 ^ 29) \<le> sint b" "sint b < 2 ^ 29"
  shows "sint (a - b) = sint a - sint b" and "sint (a - b - 10) = sint a - sint b - 10"
proof -
  show d: "sint (a - b) = sint a - sint b"
    using assms by (intro sint_minus_no_overflow) simp_all
  have "sint (a - b - 10) = sint (a - b) - sint (10 :: 32 word)"
    using assms by (intro sint_minus_no_overflow) (simp_all add: d)
  then show "sint (a - b - 10) = sint a - sint b - 10"
    by (simp add: d)
qed

lemma coverage_as_integers:
  assumes "rect_in_range M" and "rect_in_range W"
  shows "sint (rect_width M - 10) \<le> sint (rect_width W) \<longleftrightarrow>
           sint (rc_right M) - sint (rc_left M) - 10 \<le> sint (rc_right W) - sint (rc_left W)"
    and "sint (rect_height M - 10) \<le> sint (rect_height W) \<longleftrightarrow>
           sint (rc_bottom M) - sint (rc_top M) - 10 \<le> sint (rc_bottom W) - sint (rc_top W)"
  using assms
  by (simp_all add: rect_in_range_def rect_width_def rect_height_def
      sint_minus_10_no_overflow)

text \<open>
  C1, as the code has it. \<open>IsWindowFullscreen\<close> returns true exactly when the window
  is non-null, visible, carries the \<open>WS_VISIBLE\<close> style, is none of the desktop, shell
  and taskbar windows, its rectangle can be read, the display nearest its top-left corner
  is the registered primary display, that display's information can be read, and the
  window is at least as wide and as high as the display's full rectangle \<open>rcMonitor\<close>
  less 10 pixels (32-bit signed arithmetic). The work area \<open>rcWork\<close> plays no part.
\<close>

theorem IsWindowFullscreen_characterisation:
  "IsWindowFullscreen os g hWnd \<longleftrightarrow>
     hWnd \<noteq> 0 \<and> IsWindowVisible os hWnd \<and>
     (GetWindowLong os hWnd GWL_STYLE AND WS_VISIBLE) \<noteq> 0 \<and>
     hWnd \<noteq> GetDesktopWindow os \<and> hWnd \<noteq> GetShellWindow os \<and> hWnd \<noteq> g_taskbarHwnd g \<and>
     (\<exists>W mi. GetWindowRect os hWnd = Some W \<and>
        MonitorFromPoint_Original os \<lparr>pt_x = rc_left W, pt_y = rc_top W\<rparr>
          MONITOR_DEFAULTTONEAREST = g_primaryMonitor g \<and>
        GetMonitorInfo os (g_primaryMonitor g) = Some mi \<and>
        sint (rect_width (rcMonitor mi) - 10) \<le> sint (rect_width W) \<and>
        sint (rect_height (rcMonitor mi) - 10) \<le> sint (rect_height W))"
  by (auto simp: IsWindowFullscreen_def rect_width_def rect_height_def Let_def
           split: option.splits)

text \<open>
  The characterisation at two windows of the desktop: the borderless window of 1912 by
  1078 is fullscreen, the window of 1900 by 1060 is not.
\<close>

theorem IsWindowFullscreen_characterisation_witness:
  "IsWindowFullscreen (desk 5 [(5, rect_borderless)] 1) g_idle 5 \<and>
   \<not> IsWindowFullscreen (desk 5 [(5, rect_small)] 1) g_idle 5"
  using IsWindowFullscreen_characterisation [of "desk 5 [(5, rect_borderless)] 1" g_idle 5]
    IsWindowFullscreen_characterisation [of "desk 5 [(5, rect_small)] 1" g_idle 5]
  by (simp add: fixture_defs rect_width_def rect_height_def)

text \<open>
  C1 as stated fails: a maximised window of 1920 by 1040 covers the work area of the
  primary display (1920 by 1040 above the taskbar), so the classifier of the
  specification accepts it; the code measures it against the 1920 by 1080 of the whole
  display and rejects it.
\<close>

theorem IsWindowFullscreen_work_area_counterexample:
  "\<not> (IsWindowFullscreen (desk 5 [(5, rect_maximized)] 1) g_idle 5 \<longleftrightarrow>
      isFullscreen_spec (desk 5 [(5, rect_maximized)] 1) g_idle 5)"
  by (simp add: fixture_defs model_defs isFullscreen_spec_def)

text \<open>
  C10. The classifier never reads \<open>g_forceSecondary\<close>: it resolves the display through
  \<open>MonitorFromPoint_Original\<close>, so its result is the same whatever the forcing flag is,
  for every window and every answer of the system.
\<close>

theorem IsWindowFullscreen_ignores_forcing:
  "IsWindowFullscreen os (g\<lparr>g_forceSecondary := b\<rparr>) hWnd = IsWindowFullscreen os g hWnd"
  by (simp add: IsWindowFullscreen_def Let_def split: option.splits)

text \<open>
  At a fullscreen window whose top-left corner is the origin: it is classified
  fullscreen with the forcing flag on as with the flag off, although the hooked query
  at that very point and with the flag on answers the secondary display 2.
\<close>

theorem IsWindowFullscreen_ignores_forcing_witness:
  "IsWindowFullscreen (desk 5 [(5, rect_full)] 1) (g_idle\<lparr>g_forceSecondary := True\<rparr>) 5 \<and>
   IsWindowFullscreen (desk 5 [(5, rect_full)] 1) g_idle 5 \<and>
   MonitorFromPoint_Hook (desk 5 [(5, rect_full)] 1) (g_idle\<lparr>g_forceSecondary := True\<rparr>)
     \<lparr>pt_x = rc_left rect_full, pt_y = rc_top rect_full\<rparr> MONITOR_DEFAULTTONEAREST = 2"
  using IsWindowFullscreen_ignores_forcing
    [where os = "desk 5 [(5, rect_full)] 1" and g = g_idle and b = True and hWnd = 5]
  by (simp add: fixture_defs model_defs)

section \<open>Interception layer: results\<close>

text \<open>
  C2, as the code has it. The display handed to the real operation is the secondary
  display when forcing is on, the mod is not shutting down and a secondary display is
  known; the primary display when the state is idle, the mod is not shutting down and a
  primary display is known; otherwise the supplied display, which is handed on unchanged
  when it is non-null or when the state is idle during shutdown, and is replaced by the
  display nearest the origin when it is null. During shutdown the forcing flag no longer
  selects the secondary display.
\<close>

theorem SetStuckMonitor_decision_table:
  "TrayUI__SetStuckMonitor_Hook os g Original pThis monitor =
     Original pThis
       (if g_forceSecondary g \<and> \<not> g_unloading g \<and> g_secondaryMonitor g \<noteq> 0
        then g_secondaryMonitor g
        else if \<not> g_forceSecondary g \<and> \<not> g_unloading g \<and> g_primaryMonitor g \<noteq> 0
        then g_primaryMonitor g
        else if monitor \<noteq> 0 \<or> (\<not> g_forceSecondary g \<and> g_unloading g)
        then monitor
        else MonitorFromPoint_Original os \<lparr>pt_x = 0, pt_y = 0\<rparr> MONITOR_DEFAULTTONEAREST)"
  by (simp add: TrayUI__SetStuckMonitor_Hook_def Let_def)

text \<open>
  The table on the desktop, with an original operation that returns the display it is
  given: forcing yields the secondary display 2, idle the primary display 1, and idle with
  neither display registered and a null display supplied the display nearest the origin;
  so does forcing with no secondary display registered and a null display supplied.
\<close>

theorem SetStuckMonitor_decision_table_witness:
  "TrayUI__SetStuckMonitor_Hook (desk 0 [] 1) (g_idle\<lparr>g_forceSecondary := True\<rparr>)
     (\<lambda>pThis monitor. monitor) () 1 = 2 \<and>
   TrayUI__SetStuckMonitor_Hook (desk 0 [] 1) g_idle (\<lambda>pThis monitor. monitor) () 2 = 1 \<and>
   TrayUI__SetStuckMonitor_Hook (desk 0 [] 1) g_start (\<lambda>pThis monitor. monitor) () 0 = 1 \<and>
   TrayUI__SetStuckMonitor_Hook (desk 6 [(6, rect_full)] 5) g_forcing6_no_secondary
     (\<lambda>pThis monitor. monitor) () 0 = 1"
  using
    SetStuckMonitor_decision_table [where os = "desk 0 [] 1"
      and g = "g_idle\<lparr>g_forceSecondary := True\<rparr>"
      and Original = "\<lambda>pThis monitor. monitor" and pThis = "()" and monitor = 1]
    SetStuckMonitor_decision_table [where os = "desk 0 [] 1" and g = g_idle
      and Original = "\<lambda>pThis monitor. monitor" and pThis = "()" and monitor = 2]
    SetStuckMonitor_decision_table [where os = "desk 0 [] 1" and g = g_start
      and Original = "\<lambda>pThis monitor. monitor" and pThis = "()" and monitor = 0]
    SetStuckMonitor_decision_table [where os = "desk 6 [(6, rect_full)] 5"
      and g = g_forcing6_no_secondary
      and Original = "\<lambda>pThis monitor. monitor" and pThis = "()" and monitor = 0]
  by (simp add: fixture_defs)

text \<open>
  C2 as stated fails: with forcing on and the secondary display 2 known, but the mod
  shutting down, the hook hands on the supplied display 1, not the secondary display.
\<close>

theorem SetStuckMonitor_forcing_during_shutdown_counterexample:
  "g_forceSecondary (g_idle\<lparr>g_forceSecondary := True, g_unloading := True\<rparr>) \<and>
   g_secondaryMonitor (g_idle\<lparr>g_forceSecondary := True, g_unloading := True\<rparr>) = 2 \<and>
   TrayUI__SetStuckMonitor_Hook (desk 0 [] 1)
     (g_idle\<lparr>g_forceSecondary := True, g_unloading := True\<rparr>)
     (\<lambda>pThis monitor. monitor) () 1 = 1"
  by (simp add: fixture_defs model_defs)

text \<open>
  C7, as the code has it. The hook and the hook without its fast path hand the same
  display to the real operation whenever forcing is on or the mod is not shutting down.
  In the remaining state, idle during shutdown, the fast path hands on the supplied
  display as it is, while the decision table alone would hand on the primary display if
  one is known, else the supplied display if non-null, else the display nearest the
  origin.
\<close>

theorem fast_path_against_full_table:
  "(g_forceSecondary g \<or> \<not> g_unloading g \<longrightarrow>
      TrayUI__SetStuckMonitor_Hook os g Original pThis monitor =
      TrayUI__SetStuckMonitor_full_table os g Original pThis monitor) \<and>
   (\<not> g_forceSecondary g \<and> g_unloading g \<longrightarrow>
      TrayUI__SetStuckMonitor_Hook os g Original pThis monitor = Original pThis monitor \<and>
      TrayUI__SetStuckMonitor_full_table os g Original pThis monitor =
      Original pThis
        (if g_primaryMonitor g \<noteq> 0 then g_primaryMonitor g
         else if monitor \<noteq> 0 then monitor
         else MonitorFromPoint_Original os \<lparr>pt_x = 0, pt_y = 0\<rparr> MONITOR_DEFAULTTONEAREST))"
  by (auto simp add: TrayUI__SetStuckMonitor_Hook_def TrayUI__SetStuckMonitor_full_table_def
      Let_def)

text \<open>
  Both parts on the desktop: while forcing, the two agree (on the secondary display 2);
  idle during shutdown, the hook returns the supplied display 2.
\<close>

theorem fast_path_against_full_table_witness:
  "TrayUI__SetStuckMonitor_Hook (desk 0 [] 1) (g_idle\<lparr>g_forceSecondary := True\<rparr>)
     (\<lambda>pThis monitor. monitor) () 1 =
   TrayUI__SetStuckMonitor_full_table (desk 0 [] 1) (g_idle\<lparr>g_forceSecondary := True\<rparr>)
     (\<lambda>pThis monitor. monitor) () 1 \<and>
   TrayUI__SetStuckMonitor_full_table (desk 0 [] 1) (g_idle\<lparr>g_forceSecondary := True\<rparr>)
     (\<lambda>pThis monitor. monitor) () 1 = 2 \<and>
   TrayUI__SetStuckMonitor_Hook (desk 0 [] 1) (g_idle\<lparr>g_unloading := True\<rparr>)
     (\<lambda>pThis monitor. monitor) () 2 = 2"
  using
    fast_path_against_full_table [where os = "desk 0 [] 1"
      and g = "g_idle\<lparr>g_forceSecondary := True\<rparr>"
      and Original = "\<lambda>pThis monitor. monitor" and pThis = "()" and monitor = 1]
    fast_path_against_full_table [where os = "desk 0 [] 1"
      and g = "g_idle\<lparr>g_unloading := True\<rparr>"
      and Original = "\<lambda>pThis monitor. monitor" and pThis = "()" and monitor = 2]
  by (simp add: fixture_defs TrayUI__SetStuckMonitor_full_table_def Let_def)

text \<open>
  C7 as stated fails: idle during shutdown, with display 2 supplied, the hook hands on
  display 2 and the hook without the fast path the primary display 1.
\<close>

theorem fast_path_differs_counterexample:
  "TrayUI__SetStuckMonitor_Hook (desk 0 [] 1) (g_idle\<lparr>g_unloading := True\<rparr>)
     (\<lambda>pThis monitor. monitor) () 2 = 2 \<and>
   TrayUI__SetStuckMonitor_full_table (desk 0 [] 1) (g_idle\<lparr>g_unloading := True\<rparr>)
     (\<lambda>pThis monitor. monitor) () 2 = 1"
  by (simp add: fixture_defs model_defs TrayUI__SetStuckMonitor_full_table_def)

text \<open>
  C8, as the code has it. Unless the fast path is taken, that is, whenever forcing is on
  or the mod is not shutting down: if the display after substitution is null, the real
  operation receives the display that the unintercepted query returns for the origin
  with \<open>MONITOR_DEFAULTTONEAREST\<close>; if it is not null, the real operation receives it;
  so the real operation receives a non-null display whenever that query returns one. On
  the fast path, idle during shutdown, the supplied display is handed on as it is, a
  null one included.
\<close>

theorem SetStuckMonitor_null_fallback:
  "(g_forceSecondary g \<or> \<not> g_unloading g \<longrightarrow>
      (substituted_monitor g monitor = 0 \<longrightarrow>
         TrayUI__SetStuckMonitor_Hook os g Original pThis monitor =
         Original pThis
           (MonitorFromPoint_Original os \<lparr>pt_x = 0, pt_y = 0\<rparr> MONITOR_DEFAULTTONEAREST)) \<and>
      (substituted_monitor g monitor \<noteq> 0 \<longrightarrow>
         TrayUI__SetStuckMonitor_Hook os g Original pThis monitor =
         Original pThis (substituted_monitor g monitor)) \<and>
      (MonitorFromPoint_Original os \<lparr>pt_x = 0, pt_y = 0\<rparr> MONITOR_DEFAULTTONEAREST \<noteq> 0 \<longrightarrow>
         TrayUI__SetStuckMonitor_Hook os g (\<lambda>pThis monitor. monitor) pThis monitor \<noteq> 0)) \<and>
   (\<not> g_forceSecondary g \<and> g_unloading g \<longrightarrow>
      TrayUI__SetStuckMonitor_Hook os g Original pThis monitor = Original pThis monitor)"
  by (auto simp add: TrayUI__SetStuckMonitor_Hook_def substituted_monitor_def Let_def)

text \<open>
  With the hooks installed, window 6 tracked and no secondary display registered any
  more, a null display supplied stays null after the substitution, and the real
  operation receives display 1, the answer of the unintercepted query at the origin.
  While a secondary display is registered, the substitution yields it and it is handed on.
\<close>

theorem SetStuckMonitor_null_fallback_witness:
  "MonitorFromPoint_hooked g_forcing6_no_secondary \<and>
   (g_forceSecondary g_forcing6_no_secondary \<or> \<not> g_unloading g_forcing6_no_secondary) \<and>
   substituted_monitor g_forcing6_no_secondary 0 = 0 \<and>
   MonitorFromPoint_Original (desk 6 [(6, rect_full)] 5) \<lparr>pt_x = 0, pt_y = 0\<rparr>
     MONITOR_DEFAULTTONEAREST = 1 \<and>
   TrayUI__SetStuckMonitor_Hook (desk 6 [(6, rect_full)] 5) g_forcing6_no_secondary
     (\<lambda>pThis monitor. monitor) () 0 = 1 \<and>
   substituted_monitor g_forcing6 0 = 2 \<and>
   TrayUI__SetStuckMonitor_Hook (desk 6 [(6, rect_full)] 1) g_forcing6
     (\<lambda>pThis monitor. monitor) () 0 = 2"
proof -
  have st: "MonitorFromPoint_hooked g_forcing6_no_secondary"
    "g_forceSecondary g_forcing6_no_secondary \<or> \<not> g_unloading g_forcing6_no_secondary"
    "g_forceSecondary g_forcing6 \<or> \<not> g_unloading g_forcing6"
    by (simp_all add: fixture_defs)
  have sub: "substituted_monitor g_forcing6_no_secondary 0 = 0"
    "substituted_monitor g_forcing6 0 = 2"
    by (simp_all add: fixture_defs substituted_monitor_def)
  have q: "MonitorFromPoint_Original (desk 6 [(6, rect_full)] 5) \<lparr>pt_x = 0, pt_y = 0\<rparr>
     MONITOR_DEFAULTTONEAREST = 1"
    by (simp add: fixture_defs)
  show ?thesis
    using st sub q
      SetStuckMonitor_null_fallback [where os = "desk 6 [(6, rect_full)] 5"
        and g = g_forcing6_no_secondary
        and Original = "\<lambda>pThis monitor. monitor" and pThis = "()" and monitor = 0]
      SetStuckMonitor_null_fallback [where os = "desk 6 [(6, rect_full)] 1"
        and g = g_forcing6
        and Original = "\<lambda>pThis monitor. monitor" and pThis = "()" and monitor = 0]
    by simp
qed

text \<open>
  C8 as stated fails: idle during shutdown, a null display supplied by the shell
  reaches the real operation as null.
\<close>

theorem SetStuckMonitor_null_on_fast_path_counterexample:
  "TrayUI__SetStuckMonitor_Hook (desk 0 [] 1) (g_idle\<lparr>g_unloading := True\<rparr>)
     (\<lambda>pThis monitor. monitor) () 0 = 0"
  by (simp add: fixture_defs model_defs)

lemma SetStuckMonitor_Hook_loads_same:
  "TrayUI__SetStuckMonitor_Hook_loads os g g g Original pThis monitor =
   TrayUI__SetStuckMonitor_Hook os g Original pThis monitor"
  by (simp add: TrayUI__SetStuckMonitor_Hook_loads_def TrayUI__SetStuckMonitor_Hook_def)

text \<open>
  A pass of the poll loop changes neither the shutdown flag nor the registered displays.
\<close>

lemma MonitorThread_iteration_keeps_registry:
  "g_unloading (snd (MonitorThread_iteration os lastCheckedWindow g)) = g_unloading g \<and>
   g_primaryMonitor (snd (MonitorThread_iteration os lastCheckedWindow g)) = g_primaryMonitor g \<and>
   g_secondaryMonitor (snd (MonitorThread_iteration os lastCheckedWindow g)) =
     g_secondaryMonitor g"
  by (simp add: MonitorThread_iteration_def ApplyTaskbarSettings_def Let_def)




section \<open>Poll loop and shutdown: results\<close>




text \<open>
  C4, as the code has it. Whatever the state before, \<open>Wh_ModUninit\<close> ends idle, with
  the shutdown flag on and \<open>g_running\<close> off. It makes one redisplay request, from a
  state that is already idle and has \<open>g_running\<close> off, so that the loop begins no
  further pass; the wait for the thread is bounded and its outcome is not used. The
  request sends exactly one message, to the taskbar window, when that window is known
  or \<open>GetTaskbarWnd\<close> finds it, and no message otherwise.
\<close>

theorem Wh_ModUninit_ends_idle:
  "\<not> g_forceSecondary (Wh_ModUninit os g) \<and> g_fullscreenApp (Wh_ModUninit os g) = 0 \<and>
   g_unloading (Wh_ModUninit os g) \<and> \<not> g_running (Wh_ModUninit os g) \<and>
   g_taskbarHwnd (Wh_ModUninit os g) =
     (if g_taskbarHwnd g \<noteq> 0 then g_taskbarHwnd g else GetTaskbarWnd os) \<and>
   trace (Wh_ModUninit os g) =
     trace g @ ApplyTaskbarSettings_called #
       (if g_taskbarHwnd g \<noteq> 0 then [SendMessage (g_taskbarHwnd g) 0x5B8]
        else if GetTaskbarWnd os \<noteq> 0 then [SendMessage (GetTaskbarWnd os) 0x5B8]
        else []) \<and>
   (\<exists>g2. \<not> g_running g2 \<and> \<not> g_forceSecondary g2 \<and> g_fullscreenApp g2 = 0 \<and>
      trace g2 = trace g \<and> g_taskbarHwnd g2 = g_taskbarHwnd g \<and>
      MonitorThread_loop ticks lastCheckedWindow g2 = (lastCheckedWindow, g2) \<and>
      Wh_ModUninit os g = ApplyTaskbarSettings os g2) \<and>
   MonitorThread_loop ticks lastCheckedWindow (Wh_ModUninit os g) =
     (lastCheckedWindow, Wh_ModUninit os g)"
proof -
  have stopped: "\<not> g_running (Wh_ModUninit os g)"
    by (simp add: Wh_ModUninit_def ApplyTaskbarSettings_def Let_def)
  have loop: "MonitorThread_loop ticks lastCheckedWindow (Wh_ModUninit os g) =
     (lastCheckedWindow, Wh_ModUninit os g)"
    using stopped by (cases ticks) simp_all
  have from_idle: "\<exists>g2. \<not> g_running g2 \<and> \<not> g_forceSecondary g2 \<and> g_fullscreenApp g2 = 0 \<and>
      trace g2 = trace g \<and> g_taskbarHwnd g2 = g_taskbarHwnd g \<and>
      MonitorThread_loop ticks lastCheckedWindow g2 = (lastCheckedWindow, g2) \<and>
      Wh_ModUninit os g = ApplyTaskbarSettings os g2"
    by (rule exI [of _ "g\<lparr>g_unloading := True, g_running := False,
          g_fullscreenApp := 0, g_forceSecondary := False\<rparr>"], cases ticks)
       (simp_all add: Wh_ModUninit_def Let_def)
  have fields: "\<not> g_forceSecondary (Wh_ModUninit os g) \<and> g_fullscreenApp (Wh_ModUninit os g) = 0 \<and>
     g_unloading (Wh_ModUninit os g) \<and>
     g_taskbarHwnd (Wh_ModUninit os g) =
       (if g_taskbarHwnd g \<noteq> 0 then g_taskbarHwnd g else GetTaskbarWnd os) \<and>
     trace (Wh_ModUninit os g) =
       trace g @ ApplyTaskbarSettings_called #
         (if g_taskbarHwnd g \<noteq> 0 then [SendMessage (g_taskbarHwnd g) 0x5B8]
          else if GetTaskbarWnd os \<noteq> 0 then [SendMessage (GetTaskbarWnd os) 0x5B8]
          else [])"
    by (simp add: Wh_ModUninit_def ApplyTaskbarSettings_def Let_def)
  show ?thesis
    using stopped loop from_idle fields by blast
qed

text \<open>
  Shutdown while window 6 is tracked: the state is idle afterwards and one redisplay
  message has gone to the taskbar window 3, when the window is known beforehand as
  when it has to be looked up first.
\<close>

theorem Wh_ModUninit_ends_idle_witness:
  "g_forceSecondary g_forcing6 \<and> g_fullscreenApp g_forcing6 = 6 \<and>
   \<not> g_forceSecondary (Wh_ModUninit (desk 6 [(6, rect_full)] 1) g_forcing6) \<and>
   g_fullscreenApp (Wh_ModUninit (desk 6 [(6, rect_full)] 1) g_forcing6) = 0 \<and>
   trace (Wh_ModUninit (desk 6 [(6, rect_full)] 1) g_forcing6) =
     trace g_forcing6 @ [ApplyTaskbarSettings_called, SendMessage 3 0x5B8] \<and>
   trace (Wh_ModUninit (desk 6 [(6, rect_full)] 1) (g_forcing6\<lparr>g_taskbarHwnd := 0\<rparr>)) =
     trace g_forcing6 @ [ApplyTaskbarSettings_called, SendMessage 3 0x5B8]"
proof -
  have tb: "g_taskbarHwnd g_forcing6 = 3" "GetTaskbarWnd (desk 6 [(6, rect_full)] 1) = 3"
    "g_forceSecondary g_forcing6" "g_fullscreenApp g_forcing6 = 6"
    by (simp_all add: fixture_defs GetTaskbarWnd_def)
  show ?thesis
    using tb
      Wh_ModUninit_ends_idle [of "desk 6 [(6, rect_full)] 1" g_forcing6 "[]" 0]
      Wh_ModUninit_ends_idle [of "desk 6 [(6, rect_full)] 1" "g_forcing6\<lparr>g_taskbarHwnd := 0\<rparr>"
        "[]" 0]
    by simp
qed

text \<open>
  C4 as stated fails: the mod has been initialised before the shell created its taskbar
  window, and the window is still not there at shutdown. \<open>Wh_ModUninit\<close> makes its
  request and no message is sent: no shell redisplay is triggered.
\<close>

theorem Wh_ModUninit_no_message_counterexample:
  "Wh_ModInit desk_no_taskbar g_start = (True, g_idle_no_taskbar) \<and>
   trace g_idle_no_taskbar = [] \<and>
   trace (Wh_ModUninit desk_no_taskbar g_idle_no_taskbar) = [ApplyTaskbarSettings_called]"
  by (simp add: fixture_defs model_defs)

section \<open>Monitor registry: results\<close>

lemma monitorEnumProc_nth:
  "currentIndex \<le> index \<Longrightarrow>
   monitorEnumProc os index hs currentIndex =
     (if nat (index - currentIndex) < length (filter (reported_nonprimary os) hs)
      then filter (reported_nonprimary os) hs ! nat (index - currentIndex) else 0)"
proof (induction hs arbitrary: currentIndex)
  case Nil
  then show ?case by simp
next
  case (Cons h hs)
  show ?case
  proof (cases "reported_nonprimary os h")
    case False
    then have skip: "monitorEnumProc os index (h # hs) currentIndex =
        monitorEnumProc os index hs currentIndex"
      by (simp add: reported_nonprimary_def split: option.splits)
    show ?thesis
      unfolding skip using False Cons.IH [OF Cons.prems] by simp
  next
    case True
    then obtain mi where mi: "GetMonitorInfo os h = Some mi"
      "(dwFlags mi AND MONITORINFOF_PRIMARY) = 0"
      by (auto simp: reported_nonprimary_def split: option.splits)
    show ?thesis
    proof (cases "currentIndex = index")
      case True
      then show ?thesis using mi \<open>reported_nonprimary os h\<close> by simp
    next
      case False
      with Cons.prems have lt: "currentIndex + 1 \<le> index" by simp
      have n: "nat (index - currentIndex) = Suc (nat (index - (currentIndex + 1)))"
        using lt by simp
      show ?thesis
        using mi \<open>reported_nonprimary os h\<close> False Cons.IH [OF lt]
        by (simp add: n del: nat_diff_distrib)
    qed
  qed
qed

lemma GetMonitorByIndex_nth:
  "0 \<le> index \<Longrightarrow>
   GetMonitorByIndex os index =
     (if nat index < length (nonprimary_displays os)
      then nonprimary_displays os ! nat index else 0)"
  using monitorEnumProc_nth [of 0 index os "EnumDisplayMonitors os"]
  by (simp add: GetMonitorByIndex_def nonprimary_displays_def)

text \<open>
  Where \<open>GetMonitorInfo\<close> answers for every enumerated display, the displays counted are
  the enumerated displays without the primary ones.
\<close>

lemma nonprimary_displays_all_answer:
  assumes "\<forall>h \<in> set (EnumDisplayMonitors os). GetMonitorInfo os h \<noteq> None"
  shows "nonprimary_displays os =
     filter (\<lambda>h. (dwFlags (the (GetMonitorInfo os h)) AND MONITORINFOF_PRIMARY) = 0)
       (EnumDisplayMonitors os)"
  unfolding nonprimary_displays_def
  by (rule filter_cong) (use assms in \<open>auto simp: reported_nonprimary_def split: option.splits\<close>)

text \<open>
  C5. For a configured \<open>secondaryMonitor = n\<close> with \<open>n\<close> at least 1 and any enumeration
  order, \<open>RefreshMonitors\<close> sets the secondary display to entry \<open>n - 1\<close> (counted from 0)
  of the enumerated displays without the primary one, and to null when there are fewer
  than \<open>n\<close> of them; in that case \<open>Wh_ModInit\<close> returns \<open>FALSE\<close>, the secondary display
  is null, and neither a thread is created nor the loop switched on nor the
  \<open>MonitorFromPoint\<close> hook set.
\<close>

theorem secondary_display_resolution:
  assumes "1 \<le> n"
  shows "(secondaryMonitor (g_settings g) = n \<longrightarrow>
           g_secondaryMonitor (RefreshMonitors os g) =
             (if nat (n - 1) < length (nonprimary_displays os)
              then nonprimary_displays os ! nat (n - 1) else 0)) \<and>
         (Wh_GetIntSetting os ''secondaryMonitor'' = n \<and>
          int (length (nonprimary_displays os)) < n \<longrightarrow>
           fst (Wh_ModInit os g) = False \<and>
           g_secondaryMonitor (snd (Wh_ModInit os g)) = 0 \<and>
           g_monitorThread (snd (Wh_ModInit os g)) = g_monitorThread g \<and>
           g_running (snd (Wh_ModInit os g)) = g_running g \<and>
           MonitorFromPoint_hooked (snd (Wh_ModInit os g)) = MonitorFromPoint_hooked g)"
proof -
  have idx: "0 \<le> n - 1" using assms by simp
  have a: "secondaryMonitor (g_settings g) = n \<Longrightarrow>
           g_secondaryMonitor (RefreshMonitors os g) =
             (if nat (n - 1) < length (nonprimary_displays os)
              then nonprimary_displays os ! nat (n - 1) else 0)"
    using GetMonitorByIndex_nth [OF idx, of os] by (simp add: RefreshMonitors_def)
  have b: "g_secondaryMonitor (snd (Wh_ModInit os g)) = 0 \<and> fst (Wh_ModInit os g) = False \<and>
           g_monitorThread (snd (Wh_ModInit os g)) = g_monitorThread g \<and>
           g_running (snd (Wh_ModInit os g)) = g_running g \<and>
           MonitorFromPoint_hooked (snd (Wh_ModInit os g)) = MonitorFromPoint_hooked g"
    if "Wh_GetIntSetting os ''secondaryMonitor'' = n"
      "int (length (nonprimary_displays os)) < n"
  proof -
    have "\<not> nat (n - 1) < length (nonprimary_displays os)"
      using that(2) by linarith
    then have "GetMonitorByIndex os (n - 1) = 0"
      using GetMonitorByIndex_nth [OF idx, of os] by simp
    then show ?thesis
      using that(1) by (simp add: Wh_ModInit_def RefreshMonitors_def LoadSettings_def Let_def)
  qed
  show ?thesis using a b by blast
qed

text \<open>
  The example of the specification, displays 1 (primary), 2 and 4 in this order: the
  setting 1 resolves to display 2, the setting 2 to display 4, and with the setting 5 the
  secondary display stays null and initialisation fails with no thread created.
\<close>

theorem secondary_display_resolution_witness:
  "nonprimary_displays (desk 0 [] 1) = [2, 4] \<and>
   g_secondaryMonitor (RefreshMonitors (desk 0 [] 1)
       (g_start\<lparr>g_settings := g_settings g_start\<lparr>secondaryMonitor := 1\<rparr>\<rparr>)) = 2 \<and>
   g_secondaryMonitor (RefreshMonitors (desk 0 [] 2)
       (g_start\<lparr>g_settings := g_settings g_start\<lparr>secondaryMonitor := 2\<rparr>\<rparr>)) = 4 \<and>
   g_secondaryMonitor (RefreshMonitors (desk 0 [] 5)
       (g_start\<lparr>g_settings := g_settings g_start\<lparr>secondaryMonitor := 5\<rparr>\<rparr>)) = 0 \<and>
   fst (Wh_ModInit (desk 0 [] 5) g_start) = False \<and>
   g_monitorThread (snd (Wh_ModInit (desk 0 [] 5) g_start)) = 0 \<and>
   \<not> g_running (snd (Wh_ModInit (desk 0 [] 5) g_start))"
proof -
  have np: "\<And>n. nonprimary_displays (desk 0 [] n) = [2, 4]"
    by (simp add: nonprimary_displays_def reported_nonprimary_def fixture_defs)
  have s: "\<And>n. Wh_GetIntSetting (desk 0 [] n) ''secondaryMonitor'' = n"
    by (simp add: fixture_defs)
  have t: "g_monitorThread g_start = 0" "\<not> g_running g_start"
    by (simp_all add: fixture_defs)
  show ?thesis
    using
      secondary_display_resolution [of 1
        "g_start\<lparr>g_settings := g_settings g_start\<lparr>secondaryMonitor := 1\<rparr>\<rparr>" "desk 0 [] 1"]
      secondary_display_resolution [of 2
        "g_start\<lparr>g_settings := g_settings g_start\<lparr>secondaryMonitor := 2\<rparr>\<rparr>" "desk 0 [] 2"]
      secondary_display_resolution [of 5
        "g_start\<lparr>g_settings := g_settings g_start\<lparr>secondaryMonitor := 5\<rparr>\<rparr>" "desk 0 [] 5"]
      secondary_display_resolution [of 5 g_start "desk 0 [] 5"]
    by (simp add: np s t)
qed

section \<open>Change-detection gate: results\<close>

lemma length_trace_ApplyTaskbarSettings:
  "length (trace (ApplyTaskbarSettings os g)) =
     Suc (length (trace g)) + (if g_taskbarHwnd g = 0 \<and> GetTaskbarWnd os = 0 then 0 else 1)"
  by (simp add: ApplyTaskbarSettings_def Let_def)

lemma iteration_gate_suppressed:
  assumes "gate_suppresses_entry os lastCheckedWindow g"
  shows "length (trace (snd (MonitorThread_iteration os lastCheckedWindow g))) <
         length (trace (MonitorThread_iteration_ungated os g))"
  using assms
  by (auto simp add: MonitorThread_iteration_def MonitorThread_iteration_ungated_def
      gate_suppresses_entry_def Let_def length_trace_ApplyTaskbarSettings)

text \<open>
  One pass: the gated and the ungated body leave the same globals exactly when the gate
  does not suppress an entry into forcing.
\<close>

lemma iteration_gate:
  "snd (MonitorThread_iteration os lastCheckedWindow g) = MonitorThread_iteration_ungated os g
   \<longleftrightarrow> \<not> gate_suppresses_entry os lastCheckedWindow g"
proof (cases "gate_suppresses_entry os lastCheckedWindow g")
  case True
  from iteration_gate_suppressed [OF True] show ?thesis
    using True by auto
next
  case False
  then show ?thesis
    by (auto simp add: MonitorThread_iteration_def MonitorThread_iteration_ungated_def
        gate_suppresses_entry_def Let_def)
qed

text \<open>
  Where the gate matters. The loop with the gate and the loop that classifies on every
  pass end in the same globals on every sequence of inputs on which no pass finds the
  foreground window unchanged since the pass before, classified fullscreen, and no
  application tracked after the liveness check.
\<close>

lemma gated_loop_agrees_unless_suppressed:
  "gate_never_suppresses ticks lastCheckedWindow g \<Longrightarrow>
   snd (MonitorThread_loop ticks lastCheckedWindow g) = MonitorThread_loop_ungated ticks g"
proof (induction ticks arbitrary: lastCheckedWindow g)
  case Nil
  then show ?case by simp
next
  case (Cons os rest)
  show ?case
  proof (cases "g_running g")
    case False
    then show ?thesis by simp
  next
    case True
    with Cons.prems have ns: "\<not> gate_suppresses_entry os lastCheckedWindow g"
      and rest: "gate_never_suppresses rest
             (fst (MonitorThread_iteration os lastCheckedWindow g))
             (snd (MonitorThread_iteration os lastCheckedWindow g))"
      by simp_all
    from ns have eq: "snd (MonitorThread_iteration os lastCheckedWindow g) =
        MonitorThread_iteration_ungated os g"
      by (simp add: iteration_gate)
    show ?thesis
      using True Cons.IH [OF rest] eq by (simp add: split_beta)
  qed
qed

text \<open>
  Three passes on which the gate is closed once and suppresses nothing: window 5, not
  fullscreen, in the foreground twice, then the fullscreen window 6. Either loop ends
  tracking window 6.
\<close>

lemma gated_loop_agrees_example:
  "gate_never_suppresses
     [desk 5 [(5, rect_small)] 1, desk 5 [(5, rect_small)] 1,
      desk 6 [(6, rect_full), (5, rect_small)] 1] 0 g_idle \<and>
   fst (MonitorThread_iteration (desk 5 [(5, rect_small)] 1) 0 g_idle) =
     GetForegroundWindow (desk 5 [(5, rect_small)] 1) \<and>
   snd (MonitorThread_loop
     [desk 5 [(5, rect_small)] 1, desk 5 [(5, rect_small)] 1,
      desk 6 [(6, rect_full), (5, rect_small)] 1] 0 g_idle) = g_forcing6 \<and>
   MonitorThread_loop_ungated
     [desk 5 [(5, rect_small)] 1, desk 5 [(5, rect_small)] 1,
      desk 6 [(6, rect_full), (5, rect_small)] 1] g_idle = g_forcing6"
  by (simp add: fixture_defs model_defs gate_suppresses_entry_def
      MonitorThread_iteration_ungated_def)

text \<open>
  C6. The claim, that the loop with the gate and the loop that classifies on every pass
  end in the same state with the same redisplays, is what the source announces for the
  gate (an optimisation), and the code breaks it: window 5 is in the foreground on two
  passes in a row, started as the thread starts them (\<open>lastCheckedWindow\<close> null),
  maximised on the first and fullscreen on the second. The loop with the gate does not
  look at the window again and stays idle with no redisplay requested; the loop without
  the gate enters forcing for window 5 and requests a redisplay.
\<close>

theorem gated_loop_misses_fullscreen_toggle:
  "snd (MonitorThread_loop [desk 5 [(5, rect_maximized)] 1, desk 5 [(5, rect_full)] 1] 0 g_idle)
     = g_idle \<and>
   MonitorThread_loop_ungated [desk 5 [(5, rect_maximized)] 1, desk 5 [(5, rect_full)] 1] g_idle
     = g_idle\<lparr>g_fullscreenApp := 5, g_forceSecondary := True,
              trace := [ApplyTaskbarSettings_called, SendMessage 3 0x5B8]\<rparr>"
  by (simp add: fixture_defs model_defs MonitorThread_iteration_ungated_def)


end
